theory Spec2Isabelle
  imports Main
begin

section \<open>Text helpers: digits, padding, whitespace\<close>

text \<open>
  Python strings are modelled as \<open>string\<close>, one \<open>char\<close> per character; the texts the
  codecs produce are ASCII.
\<close>

definition is_digit :: "char \<Rightarrow> bool" where
  "is_digit c = (c \<in> set ''0123456789'')"

definition digit_char :: "nat \<Rightarrow> char" where
  "digit_char n = ''0123456789'' ! (n mod 10)"

definition digit_val :: "char \<Rightarrow> nat" where
  "digit_val c = of_char c - 48"

text \<open>\<open>str(n)\<close> for a non-negative integer.\<close>

fun nat_str :: "nat \<Rightarrow> string" where
  "nat_str n = (if n < 10 then [digit_char n] else nat_str (n div 10) @ [digit_char (n mod 10)])"

declare nat_str.simps [simp del]

text \<open>\<open>int(s)\<close> for a string of decimal digits.\<close>

definition nat_of_digits :: "string \<Rightarrow> nat" where
  "nat_of_digits s = foldl (\<lambda>a c. 10 * a + digit_val c) 0 s"

text \<open>\<open>str(i)\<close> and \<open>"%+d" % i\<close> for an integer.\<close>

definition int_str :: "int \<Rightarrow> string" where
  "int_str i = (if i < 0 then ''-'' @ nat_str (nat (- i)) else nat_str (nat i))"

definition int_str_signed :: "int \<Rightarrow> string" where
  "int_str_signed i = (if i < 0 then ''-'' @ nat_str (nat (- i)) else ''+'' @ nat_str (nat i))"

text \<open>\<open>"%0kd" % n\<close>: zero padding on the left up to width \<open>k\<close>.\<close>

definition zfill :: "nat \<Rightarrow> string \<Rightarrow> string" where
  "zfill k s = replicate (k - length s) (CHR ''0'') @ s"

definition is_space :: "char \<Rightarrow> bool" where
  "is_space c = (let n = (of_char c :: nat) in (9 \<le> n \<and> n \<le> 13) \<or> (28 \<le> n \<and> n \<le> 32))"

definition strip :: "string \<Rightarrow> string" where
  "strip s = rev (dropWhile is_space (rev (dropWhile is_space s)))"

definition lower :: "char \<Rightarrow> char" where
  "lower c = (let n = (of_char c :: nat) in if 65 \<le> n \<and> n \<le> 90 then char_of (n + 32) else c)"

text \<open>An optional leading sign, as the pattern \<open>[-+]?\<close> reads it.\<close>

definition split_sign :: "string \<Rightarrow> bool \<times> string" where
  "split_sign s =
     (case s of
        [] \<Rightarrow> (False, s)
      | c # t \<Rightarrow> if c = CHR ''-'' then (True, t) else if c = CHR ''+'' then (False, t) else (False, s))"

text \<open>\<open>[-+]?\d+\<close> read as an integer.\<close>

definition parse_signed_int :: "string \<Rightarrow> int option" where
  "parse_signed_int s =
     (let (neg, r) = split_sign s
      in if r \<noteq> [] \<and> list_all is_digit r
         then Some (if neg then - int (nat_of_digits r) else int (nat_of_digits r))
         else None)"

section \<open>The exact decimal type (Python's \<open>decimal.Decimal\<close>)\<close>

text \<open>
  A \<open>Decimal\<close> is a sign, a coefficient and an exponent, or one of the special values.
  The coefficient is kept as a natural number: Python keeps its digits without leading
  zeros. The diagnostic of a NaN is \<open>0\<close> when Python's is empty.
\<close>

datatype decimal =
    Finite bool nat int
  | Infinity bool
  | NaN bool bool nat

definition sign_str :: "bool \<Rightarrow> string" where
  "sign_str sg = (if sg then ''-'' else [])"

text \<open>\<open>Decimal.__str__\<close>: scientific notation when the exponent is positive or the number
  is below \<open>1E-6\<close>, plain notation otherwise.\<close>

fun decimal_str :: "decimal \<Rightarrow> string" where
  "decimal_str (Infinity sg) = sign_str sg @ ''Infinity''"
| "decimal_str (NaN sg signal diag) =
     sign_str sg @ (if signal then ''sNaN'' else ''NaN'') @ (if diag = 0 then [] else nat_str diag)"
| "decimal_str (Finite sg n e) =
     (let ds = nat_str n;
          leftdigits = e + int (length ds);
          dotplace = (if e \<le> 0 \<and> leftdigits > - 6 then leftdigits else 1);
          intpart = (if dotplace \<le> 0 then ''0''
                     else if dotplace \<ge> int (length ds)
                          then ds @ replicate (nat dotplace - length ds) (CHR ''0'')
                          else take (nat dotplace) ds);
          fracpart = (if dotplace \<le> 0 then ''.'' @ replicate (nat (- dotplace)) (CHR ''0'') @ ds
                      else if dotplace \<ge> int (length ds) then []
                      else ''.'' @ drop (nat dotplace) ds);
          exp = (if leftdigits = dotplace then [] else ''E'' @ int_str_signed (leftdigits - dotplace))
      in sign_str sg @ intpart @ fracpart @ exp)"

text \<open>The numeric literal \<open>\d* (\. \d*)? (E [-+]? \d+)?\<close> with at least one digit: the
  coefficient is the integer and fraction digits read together, the exponent is lowered
  by the number of fraction digits.\<close>

definition parse_number :: "string \<Rightarrow> (nat \<times> int) option" where
  "parse_number r =
     (let ip = takeWhile is_digit r;
          r1 = dropWhile is_digit r;
          (fp, r2) = (case r1 of
                        [] \<Rightarrow> ([], r1)
                      | c # t \<Rightarrow> if c = CHR ''.'' then (takeWhile is_digit t, dropWhile is_digit t)
                                else ([], r1))
      in if ip = [] \<and> fp = [] then None
         else (case r2 of
                 [] \<Rightarrow> Some (nat_of_digits (ip @ fp), - int (length fp))
               | c # t \<Rightarrow>
                   if c = CHR ''E'' \<or> c = CHR ''e''
                   then map_option (\<lambda>x. (nat_of_digits (ip @ fp), x - int (length fp)))
                          (parse_signed_int t)
                   else None))"

text \<open>\<open>Inf\<close>, \<open>Infinity\<close>, \<open>NaN\<close> and \<open>sNaN\<close> with optional diagnostic digits, in any case.\<close>

definition parse_special :: "bool \<Rightarrow> string \<Rightarrow> decimal option" where
  "parse_special sg r =
     (let l = map lower r
      in if l = ''inf'' \<or> l = ''infinity'' then Some (Infinity sg)
         else if take 3 l = ''nan'' \<and> list_all is_digit (drop 3 l)
              then Some (NaN sg False (nat_of_digits (drop 3 l)))
         else if take 4 l = ''snan'' \<and> list_all is_digit (drop 4 l)
              then Some (NaN sg True (nat_of_digits (drop 4 l)))
         else None)"

text \<open>\<open>Decimal(s)\<close> for a string: surrounding whitespace is stripped and underscores are
  removed before the literal is read; \<open>None\<close> stands for \<open>decimal.InvalidOperation\<close>.\<close>

definition decimal_parse :: "string \<Rightarrow> decimal option" where
  "decimal_parse s0 =
     (let s = filter (\<lambda>c. c \<noteq> CHR ''_'') (strip s0);
          (sg, r) = split_sign s
      in case parse_number r of
           Some (n, e) \<Rightarrow> Some (Finite sg n e)
         | None \<Rightarrow> parse_special sg r)"

section \<open>Calendar dates and timestamps (Python's \<open>datetime\<close>)\<close>

datatype date = Date (year: nat) (month: nat) (day: nat)

definition is_leap :: "nat \<Rightarrow> bool" where
  "is_leap y = (y mod 4 = 0 \<and> (y mod 100 \<noteq> 0 \<or> y mod 400 = 0))"

definition days_in_month :: "nat \<Rightarrow> nat \<Rightarrow> nat" where
  "days_in_month y m =
     (if m = 2 then (if is_leap y then 29 else 28)
      else if m = 4 \<or> m = 6 \<or> m = 9 \<or> m = 11 then 30 else 31)"

text \<open>The invariant of every \<open>datetime.date\<close> object.\<close>

definition date_ok :: "date \<Rightarrow> bool" where
  "date_ok d = (1 \<le> year d \<and> year d \<le> 9999 \<and> 1 \<le> month d \<and> month d \<le> 12 \<and>
                1 \<le> day d \<and> day d \<le> days_in_month (year d) (month d))"

definition date_isoformat :: "date \<Rightarrow> string" where
  "date_isoformat d =
     zfill 4 (nat_str (year d)) @ ''-'' @ zfill 2 (nat_str (month d)) @ ''-'' @ zfill 2 (nat_str (day d))"

text \<open>\<open>date.fromisoformat\<close> for the format \<open>YYYY-MM-DD\<close>; \<open>None\<close> stands for \<open>ValueError\<close>.\<close>

definition date_parse :: "string \<Rightarrow> date option" where
  "date_parse s =
     (if length s = 10 \<and> s ! 4 = CHR ''-'' \<and> s ! 7 = CHR ''-'' \<and>
         list_all is_digit (take 4 s) \<and> list_all is_digit (take 2 (drop 5 s)) \<and>
         list_all is_digit (drop 8 s)
      then (let d = Date (nat_of_digits (take 4 s)) (nat_of_digits (take 2 (drop 5 s)))
                         (nat_of_digits (drop 8 s))
            in if date_ok d then Some d else None)
      else None)"

text \<open>A timestamp: a date, a time of day and an optional UTC offset, in whole minutes.\<close>

datatype datetime =
  DateTime (dt_date: date) (hour: nat) (minute: nat) (second: nat) (microsecond: nat)
           (utcoffset: "int option")

definition datetime_ok :: "datetime \<Rightarrow> bool" where
  "datetime_ok t = (date_ok (dt_date t) \<and> hour t < 24 \<and> minute t < 60 \<and> second t < 60 \<and>
                    microsecond t < 1000000 \<and>
                    (case utcoffset t of None \<Rightarrow> True | Some k \<Rightarrow> - 1440 < k \<and> k < 1440))"

definition format_time :: "nat \<Rightarrow> nat \<Rightarrow> nat \<Rightarrow> nat \<Rightarrow> string" where
  "format_time h m s us =
     zfill 2 (nat_str h) @ '':'' @ zfill 2 (nat_str m) @ '':'' @ zfill 2 (nat_str s) @
     (if us = 0 then [] else ''.'' @ zfill 6 (nat_str us))"

definition format_offset :: "int option \<Rightarrow> string" where
  "format_offset off =
     (case off of
        None \<Rightarrow> []
      | Some k \<Rightarrow> (if k < 0 then ''-'' else ''+'') @ zfill 2 (nat_str (nat \<bar>k\<bar> div 60)) @ '':'' @
                  zfill 2 (nat_str (nat \<bar>k\<bar> mod 60)))"

text \<open>\<open>datetime.isoformat(sep)\<close>; \<open>str\<close> of a timestamp uses a blank as separator.\<close>

definition datetime_isoformat :: "char \<Rightarrow> datetime \<Rightarrow> string" where
  "datetime_isoformat sep t =
     date_isoformat (dt_date t) @ [sep] @
     format_time (hour t) (minute t) (second t) (microsecond t) @ format_offset (utcoffset t)"

text \<open>The time of day \<open>HH[:MM[:SS[.fff[fff]]]]\<close>.\<close>

definition parse_hh_mm_ss_ff :: "string \<Rightarrow> (nat \<times> nat \<times> nat \<times> nat) option" where
  "parse_hh_mm_ss_ff s =
     (let n = length s;
          two = (\<lambda>i. take 2 (drop i s));
          dig = list_all is_digit
      in if n = 2 \<and> dig s then Some (nat_of_digits s, 0, 0, 0)
         else if n = 5 \<and> dig (two 0) \<and> s ! 2 = CHR '':'' \<and> dig (two 3)
              then Some (nat_of_digits (two 0), nat_of_digits (two 3), 0, 0)
         else if n = 8 \<and> dig (two 0) \<and> s ! 2 = CHR '':'' \<and> dig (two 3) \<and> s ! 5 = CHR '':'' \<and>
                 dig (two 6)
              then Some (nat_of_digits (two 0), nat_of_digits (two 3), nat_of_digits (two 6), 0)
         else if (n = 12 \<or> n = 15) \<and> dig (two 0) \<and> s ! 2 = CHR '':'' \<and> dig (two 3) \<and>
                 s ! 5 = CHR '':'' \<and> dig (two 6) \<and> s ! 8 = CHR ''.'' \<and> dig (drop 9 s)
              then Some (nat_of_digits (two 0), nat_of_digits (two 3), nat_of_digits (two 6),
                         if n = 12 then 1000 * nat_of_digits (drop 9 s) else nat_of_digits (drop 9 s))
         else None)"

text \<open>The offset \<open>HH:MM\<close>, in minutes; it must stay below one day.\<close>

definition parse_offset :: "string \<Rightarrow> nat option" where
  "parse_offset z =
     (if length z = 5 \<and> list_all is_digit (take 2 z) \<and> z ! 2 = CHR '':'' \<and>
         list_all is_digit (drop 3 z)
      then (let k = nat_of_digits (take 2 z) * 60 + nat_of_digits (drop 3 z)
            in if k < 1440 then Some k else None)
      else None)"

definition is_sign :: "char \<Rightarrow> bool" where
  "is_sign c = (c = CHR ''+'' \<or> c = CHR ''-'')"

text \<open>\<open>datetime.fromisoformat\<close>: the date, then any one separator character, then the time
  of day and the offset; a date alone is midnight. \<open>None\<close> stands for \<open>ValueError\<close>.\<close>

definition datetime_parse :: "string \<Rightarrow> datetime option" where
  "datetime_parse s =
     (case date_parse (take 10 s) of
        None \<Rightarrow> None
      | Some d \<Rightarrow>
          if length s = 10 then Some (DateTime d 0 0 0 0 None)
          else (let tstr = drop 11 s;
                    tp = takeWhile (\<lambda>c. \<not> is_sign c) tstr;
                    tz = dropWhile (\<lambda>c. \<not> is_sign c) tstr
                in case parse_hh_mm_ss_ff tp of
                     None \<Rightarrow> None
                   | Some (h, m, sec, us) \<Rightarrow>
                       if \<not> (h < 24 \<and> m < 60 \<and> sec < 60) then None
                       else (case tz of
                               [] \<Rightarrow> Some (DateTime d h m sec us None)
                             | c # z \<Rightarrow>
                                 (case parse_offset z of
                                    None \<Rightarrow> None
                                  | Some k \<Rightarrow>
                                      Some (DateTime d h m sec us
                                              (Some (if c = CHR ''-'' then - int k else int k)))))))"

section \<open>Python values, dictionaries and exceptions\<close>

text \<open>
  The values the codecs handle. A dictionary is an association list in insertion order,
  with distinct keys. An instance of \<open>Stock\<close> or \<open>Trade\<close> is its attribute dictionary
  (\<open>vars(obj)\<close>). Floating-point numbers are not part of the model.
\<close>

datatype pyval =
    VNone
  | VBool bool
  | VInt int
  | VStr string
  | VDec decimal
  | VDate date
  | VDateTime datetime
  | VList "pyval list"
  | VDict "(string \<times> pyval) list"
  | VStock "(string \<times> pyval) list"
  | VTrade "(string \<times> pyval) list"

type_synonym dict = "(string \<times> pyval) list"

text \<open>Exceptions, with the message where one is given. The wording of the messages raised
  by the standard library follows CPython.\<close>

datatype error =
    KeyError string
  | TypeError string
  | ValueError string
  | AttributeError string
  | OverflowError string
  | InvalidOperation
  | ValidationError "(string \<times> string list) list"

definition ebind :: "error + 'a \<Rightarrow> ('a \<Rightarrow> error + 'b) \<Rightarrow> error + 'b" where
  "ebind r f = (case r of Inl e \<Rightarrow> Inl e | Inr x \<Rightarrow> f x)"

text \<open>\<open>k in d\<close>, \<open>d[k]\<close>, \<open>del d[k]\<close> and \<open>d[k] = v\<close>.\<close>

definition dict_has :: "dict \<Rightarrow> string \<Rightarrow> bool" where
  "dict_has d k = (map_of d k \<noteq> None)"

definition dict_getitem :: "dict \<Rightarrow> string \<Rightarrow> error + pyval" where
  "dict_getitem d k = (case map_of d k of None \<Rightarrow> Inl (KeyError k) | Some v \<Rightarrow> Inr v)"

definition dict_del :: "dict \<Rightarrow> string \<Rightarrow> dict" where
  "dict_del d k = filter (\<lambda>kv. fst kv \<noteq> k) d"

fun dict_set :: "dict \<Rightarrow> string \<Rightarrow> pyval \<Rightarrow> dict" where
  "dict_set [] k v = [(k, v)]"
| "dict_set (p # ps) k v = (if fst p = k then (k, v) # ps else p # dict_set ps k v)"

text \<open>\<open>d[new] = d.pop(old)\<close>, run only when \<open>old in d\<close>.\<close>

definition dict_rename :: "dict \<Rightarrow> string \<Rightarrow> string \<Rightarrow> dict" where
  "dict_rename d old new =
     (case map_of d old of None \<Rightarrow> d | Some v \<Rightarrow> dict_set (dict_del d old) new v)"

definition quote :: "string \<Rightarrow> string" where
  "quote s = [CHR 0x27] @ s @ [CHR 0x27]"

fun join :: "string \<Rightarrow> string list \<Rightarrow> string" where
  "join sep [] = []"
| "join sep [x] = x"
| "join sep (x # y # ys) = x @ sep @ join sep (y # ys)"

text \<open>\<open>repr(timezone(timedelta(minutes=k)))\<close>.\<close>

definition tz_repr :: "int \<Rightarrow> string" where
  "tz_repr k =
     (if k = 0 then ''datetime.timezone.utc''
      else if 0 < k then ''datetime.timezone(datetime.timedelta(seconds='' @ int_str (k * 60) @ ''))''
      else ''datetime.timezone(datetime.timedelta(days=-1, seconds='' @ int_str (86400 + k * 60) @ ''))'')"

definition datetime_repr :: "datetime \<Rightarrow> string" where
  "datetime_repr t =
     ''datetime.datetime('' @
     join '', '' ([nat_str (year (dt_date t)), nat_str (month (dt_date t)), nat_str (day (dt_date t)),
                   nat_str (hour t), nat_str (minute t)] @
                  (if microsecond t \<noteq> 0 then [nat_str (second t), nat_str (microsecond t)]
                   else if second t \<noteq> 0 then [nat_str (second t)] else []) @
                  (case utcoffset t of None \<Rightarrow> [] | Some k \<Rightarrow> [''tzinfo='' @ tz_repr k])) @
     '')''"

text \<open>
  \<open>repr(v)\<close>. Two simplifications: a string is put between single quotes without
  escapes, and an instance prints without its address.
\<close>

fun py_repr :: "pyval \<Rightarrow> string"
  and py_repr_list :: "pyval list \<Rightarrow> string list"
  and py_repr_items :: "dict \<Rightarrow> string list" where
  "py_repr VNone = ''None''"
| "py_repr (VBool b) = (if b then ''True'' else ''False'')"
| "py_repr (VInt i) = int_str i"
| "py_repr (VStr s) = quote s"
| "py_repr (VDec d) = ''Decimal('' @ quote (decimal_str d) @ '')''"
| "py_repr (VDate d) =
     ''datetime.date('' @ join '', '' [nat_str (year d), nat_str (month d), nat_str (day d)] @ '')''"
| "py_repr (VDateTime t) = datetime_repr t"
| "py_repr (VList xs) = ''['' @ join '', '' (py_repr_list xs) @ '']''"
| "py_repr (VDict d) = ''{'' @ join '', '' (py_repr_items d) @ ''}''"
| "py_repr (VStock a) = ''<Stock object>''"
| "py_repr (VTrade a) = ''<Trade object>''"
| "py_repr_list [] = []"
| "py_repr_list (x # xs) = py_repr x # py_repr_list xs"
| "py_repr_items [] = []"
| "py_repr_items (kv # d) = (quote (fst kv) @ '': '' @ py_repr (snd kv)) # py_repr_items d"

text \<open>\<open>str(v)\<close>: the text itself for a string, the exact decimal text for a \<open>Decimal\<close>, the
  ISO text for a date, the ISO text with a blank separator for a timestamp.\<close>

definition py_str :: "pyval \<Rightarrow> string" where
  "py_str v =
     (case v of
        VStr s \<Rightarrow> s
      | VDec d \<Rightarrow> decimal_str d
      | VDate d \<Rightarrow> date_isoformat d
      | VDateTime t \<Rightarrow> datetime_isoformat (CHR '' '') t
      | _ \<Rightarrow> py_repr v)"

text \<open>\<open>Decimal(str(v))\<close>: stringify, then read as a decimal literal.\<close>

definition Decimal_of_str :: "pyval \<Rightarrow> error + pyval" where
  "Decimal_of_str v =
     (case decimal_parse (py_str v) of None \<Rightarrow> Inl InvalidOperation | Some d \<Rightarrow> Inr (VDec d))"

definition date_fromisoformat :: "pyval \<Rightarrow> error + pyval" where
  "date_fromisoformat v =
     (case v of
        VStr s \<Rightarrow> (case date_parse s of
                     None \<Rightarrow> Inl (ValueError (''Invalid isoformat string: '' @ quote s))
                   | Some d \<Rightarrow> Inr (VDate d))
      | _ \<Rightarrow> Inl (TypeError ''fromisoformat: argument must be str''))"

definition datetime_fromisoformat :: "pyval \<Rightarrow> error + pyval" where
  "datetime_fromisoformat v =
     (case v of
        VStr s \<Rightarrow> (case datetime_parse s of
                     None \<Rightarrow> Inl (ValueError (''Invalid isoformat string: '' @ quote s))
                   | Some t \<Rightarrow> Inr (VDateTime t))
      | _ \<Rightarrow> Inl (TypeError ''fromisoformat: argument must be str''))"

section \<open>The value model: \<open>Stock\<close> and \<open>Trade\<close>\<close>

text \<open>\<open>Stock.__init__\<close>: the parameter \<open>open_\<close> (here \<open>open_arg\<close>) is stored as the
  attribute \<open>open\<close>.\<close>

definition Stock_init :: "pyval \<Rightarrow> pyval \<Rightarrow> pyval \<Rightarrow> pyval \<Rightarrow> pyval \<Rightarrow> pyval \<Rightarrow> pyval \<Rightarrow> pyval" where
  "Stock_init symbol date open_arg high low close volume =
     VStock [(''symbol'', symbol), (''date'', date), (''open'', open_arg), (''high'', high),
             (''low'', low), (''close'', close), (''volume'', volume), (''datatype'', VStr ''stock'')]"

definition Trade_init :: "pyval \<Rightarrow> pyval \<Rightarrow> pyval \<Rightarrow> pyval \<Rightarrow> pyval \<Rightarrow> pyval \<Rightarrow> pyval" where
  "Trade_init symbol timestamp order price volume commission =
     VTrade [(''symbol'', symbol), (''timestamp'', timestamp), (''order'', order), (''price'', price),
             (''commission'', commission), (''volume'', volume), (''datatype'', VStr ''trade'')]"

text \<open>A call \<open>f(**kwargs)\<close> binds every keyword to a parameter: a keyword that is no
  parameter, or a parameter left without a value, is a \<open>TypeError\<close>.\<close>

definition check_kwargs :: "string list \<Rightarrow> dict \<Rightarrow> error + unit" where
  "check_kwargs params kwargs =
     (case filter (\<lambda>k. k \<notin> set params) (map fst kwargs) of
        k # _ \<Rightarrow> Inl (TypeError (''__init__() got an unexpected keyword argument '' @ quote k))
      | [] \<Rightarrow> (case filter (\<lambda>p. \<not> dict_has kwargs p) params of
                 [] \<Rightarrow> Inr ()
               | ms \<Rightarrow> Inl (TypeError (''__init__() missing required positional arguments: '' @
                                      join '', '' (map quote ms)))))"

definition kwarg :: "dict \<Rightarrow> string \<Rightarrow> pyval" where
  "kwarg kwargs k = (case map_of kwargs k of None \<Rightarrow> VNone | Some v \<Rightarrow> v)"

text \<open>\<open>Stock(**kwargs)\<close> and \<open>Trade(**kwargs)\<close>.\<close>

definition Stock_new :: "dict \<Rightarrow> error + pyval" where
  "Stock_new kw =
     ebind (check_kwargs [''symbol'', ''date'', ''open_'', ''high'', ''low'', ''close'', ''volume''] kw)
       (\<lambda>_. Inr (Stock_init (kwarg kw ''symbol'') (kwarg kw ''date'') (kwarg kw ''open_'') (kwarg kw ''high'')
                             (kwarg kw ''low'') (kwarg kw ''close'') (kwarg kw ''volume'')))"

definition Trade_new :: "dict \<Rightarrow> error + pyval" where
  "Trade_new kw =
     ebind (check_kwargs [''symbol'', ''timestamp'', ''order'', ''price'', ''volume'', ''commission''] kw)
       (\<lambda>_. Inr (Trade_init (kwarg kw ''symbol'') (kwarg kw ''timestamp'') (kwarg kw ''order'')
                             (kwarg kw ''price'') (kwarg kw ''volume'') (kwarg kw ''commission'')))"

section \<open>The tagged encoder: \<open>CustomEncoder\<close>\<close>

definition type_name :: "pyval \<Rightarrow> string" where
  "type_name v =
     (case v of
        VNone \<Rightarrow> ''NoneType'' | VBool _ \<Rightarrow> ''bool'' | VInt _ \<Rightarrow> ''int'' | VStr _ \<Rightarrow> ''str''
      | VDec _ \<Rightarrow> ''Decimal'' | VDate _ \<Rightarrow> ''date'' | VDateTime _ \<Rightarrow> ''datetime''
      | VList _ \<Rightarrow> ''list'' | VDict _ \<Rightarrow> ''dict'' | VStock _ \<Rightarrow> ''Stock'' | VTrade _ \<Rightarrow> ''Trade'')"

text \<open>
  \<open>CustomEncoder.default(arg)\<close>. The result is the value returned together with the
  argument as the call leaves it: \<open>toJSON\<close> returns \<open>vars(self)\<close>, the attribute dictionary
  itself, so the renaming of \<open>open\<close> to \<open>open_\<close> is done on the \<open>Stock\<close> instance.
  A timestamp is tested before a date, of which it is a subclass. The last line,
  \<open>super().default(arg)\<close>, raises \<open>TypeError\<close>.
\<close>

fun CustomEncoder_default :: "pyval \<Rightarrow> error + pyval \<times> pyval" where
  "CustomEncoder_default (VStock a) =
     (let data = dict_rename a ''open'' ''open_'' in Inr (VDict data, VStock data))"
| "CustomEncoder_default (VTrade a) = Inr (VDict a, VTrade a)"
| "CustomEncoder_default (VDateTime t) = Inr (VStr (datetime_isoformat (CHR ''T'') t), VDateTime t)"
| "CustomEncoder_default (VDate d) =
     Inr (VDict [(''datatype'', VStr ''date''), (''date'', VStr (date_isoformat d))], VDate d)"
| "CustomEncoder_default (VDec d) = Inr (VStr (decimal_str d), VDec d)"
| "CustomEncoder_default v =
     Inl (TypeError (''Object of type '' @ type_name v @ '' is not JSON serializable''))"

text \<open>The weight of a value bounds the work of the encoder: \<open>default\<close> returns a value of
  smaller weight than its argument.\<close>

fun wt :: "pyval \<Rightarrow> nat"
  and wt_list :: "pyval list \<Rightarrow> nat"
  and wt_items :: "dict \<Rightarrow> nat" where
  "wt VNone = 0"
| "wt (VBool b) = 0"
| "wt (VInt i) = 0"
| "wt (VStr s) = 0"
| "wt (VDec d) = 1"
| "wt (VDate d) = 4"
| "wt (VDateTime t) = 1"
| "wt (VList xs) = 1 + wt_list xs"
| "wt (VDict d) = 1 + wt_items d"
| "wt (VStock a) = 2 + wt_items a"
| "wt (VTrade a) = 2 + wt_items a"
| "wt_list [] = 0"
| "wt_list (x # xs) = 1 + wt x + wt_list xs"
| "wt_items [] = 0"
| "wt_items (kv # d) = 1 + wt (snd kv) + wt_items d"

lemma wt_items_dict_del: "wt_items (dict_del d k) \<le> wt_items d"
  by (induction d) (auto simp: dict_del_def)

lemma wt_items_dict_del_Some:
  "map_of d k = Some v \<Longrightarrow> wt_items (dict_del d k) + 1 + wt v \<le> wt_items d"
proof (induction d)
  case Nil
  then show ?case by simp
next
  case (Cons p d)
  show ?case
  proof (cases "fst p = k")
    case True
    with Cons.prems have "snd p = v" by (cases p) auto
    moreover have "wt_items (dict_del d k) \<le> wt_items d" by (rule wt_items_dict_del)
    ultimately show ?thesis using True by (simp add: dict_del_def)
  next
    case False
    with Cons.prems have "map_of d k = Some v" by (cases p) auto
    from Cons.IH [OF this] show ?thesis using False by (simp add: dict_del_def)
  qed
qed

lemma wt_items_dict_set: "wt_items (dict_set d k v) \<le> wt_items d + 1 + wt v"
  by (induction d) auto

lemma wt_items_dict_rename: "wt_items (dict_rename d old new) \<le> wt_items d"
proof (cases "map_of d old")
  case None
  then show ?thesis by (simp add: dict_rename_def)
next
  case (Some v)
  have "wt_items (dict_set (dict_del d old) new v) \<le> wt_items (dict_del d old) + 1 + wt v"
    by (rule wt_items_dict_set)
  also have "\<dots> \<le> wt_items d" by (rule wt_items_dict_del_Some [OF Some])
  finally show ?thesis using Some by (simp add: dict_rename_def)
qed

text \<open>
  \<open>json.dumps(obj, cls=CustomEncoder)\<close>, up to the JSON tree the text denotes: the
  encoder walks lists and dictionaries, and replaces every value that is no JSON value by
  what \<open>default\<close> returns for it, which it then encodes in turn.
\<close>

function json_dumps :: "pyval \<Rightarrow> error + pyval"
  and json_dumps_list :: "pyval list \<Rightarrow> error + pyval list"
  and json_dumps_items :: "dict \<Rightarrow> error + dict" where
  "json_dumps VNone = Inr VNone"
| "json_dumps (VBool b) = Inr (VBool b)"
| "json_dumps (VInt i) = Inr (VInt i)"
| "json_dumps (VStr s) = Inr (VStr s)"
| "json_dumps (VList xs) = ebind (json_dumps_list xs) (\<lambda>ys. Inr (VList ys))"
| "json_dumps (VDict d) = ebind (json_dumps_items d) (\<lambda>d'. Inr (VDict d'))"
| "json_dumps (VDec x) = json_dumps (VStr (decimal_str x))"
| "json_dumps (VDateTime t) = json_dumps (VStr (datetime_isoformat (CHR ''T'') t))"
| "json_dumps (VDate x) =
     json_dumps (VDict [(''datatype'', VStr ''date''), (''date'', VStr (date_isoformat x))])"
| "json_dumps (VStock a) = json_dumps (VDict (dict_rename a ''open'' ''open_''))"
| "json_dumps (VTrade a) = json_dumps (VDict a)"
| "json_dumps_list [] = Inr []"
| "json_dumps_list (x # xs) =
     ebind (json_dumps x) (\<lambda>y. ebind (json_dumps_list xs) (\<lambda>ys. Inr (y # ys)))"
| "json_dumps_items [] = Inr []"
| "json_dumps_items (kv # d) =
     ebind (json_dumps (snd kv)) (\<lambda>y. ebind (json_dumps_items d) (\<lambda>d'. Inr ((fst kv, y) # d')))"
  by pat_completeness auto
termination
proof (relation "measure (\<lambda>x. case x of Inl v \<Rightarrow> wt v
                                        | Inr (Inl xs) \<Rightarrow> wt_list xs
                                        | Inr (Inr d) \<Rightarrow> wt_items d)", goal_cases)
  case (7 a)
  have "wt_items (dict_rename a ''open'' ''open_'') \<le> wt_items a"
    by (rule wt_items_dict_rename)
  then show ?case by simp
qed simp_all

lemma json_dumps_default:
  "CustomEncoder_default v = Inr (r, v') \<Longrightarrow> json_dumps v = json_dumps r"
  by (cases v) (auto simp: Let_def)

section \<open>The tagged decoder: \<open>custom_decoder\<close>\<close>

text \<open>The loop \<open>for key in keys: arg_copy[key] = Decimal(str(arg_copy[key]))\<close>.\<close>

fun coerce_decimals :: "string list \<Rightarrow> dict \<Rightarrow> error + dict" where
  "coerce_decimals [] d = Inr d"
| "coerce_decimals (key # keys) d =
     ebind (dict_getitem d key) (\<lambda>v.
     ebind (Decimal_of_str v) (\<lambda>x. coerce_decimals keys (dict_set d key x)))"

text \<open>The branch for \<open>datatype == 'trade'\<close>; a missing timestamp is read as the empty text.\<close>

definition decode_trade :: "dict \<Rightarrow> error + pyval" where
  "decode_trade arg_copy =
     ebind (datetime_fromisoformat
              (case map_of arg_copy ''timestamp'' of None \<Rightarrow> VStr [] | Some v \<Rightarrow> v)) (\<lambda>ts.
     ebind (coerce_decimals [''price'', ''commission''] (dict_set arg_copy ''timestamp'' ts)) Trade_new)"

text \<open>The three shapes of the \<open>date\<close> of a stock: a native date (or timestamp, its
  subclass) is kept, a mapping tagged \<open>date\<close> is unwrapped, anything else is read as
  ISO text.\<close>

definition resolve_date :: "dict \<Rightarrow> error + dict" where
  "resolve_date arg_copy =
     ebind (dict_getitem arg_copy ''date'') (\<lambda>dv.
       case dv of
         VDate _ \<Rightarrow> Inr arg_copy
       | VDateTime _ \<Rightarrow> Inr arg_copy
       | VDict w \<Rightarrow>
           if map_of w ''datatype'' = Some (VStr ''date'')
           then ebind (dict_getitem w ''date'') (\<lambda>s.
                ebind (date_fromisoformat s) (\<lambda>x. Inr (dict_set arg_copy ''date'' x)))
           else ebind (date_fromisoformat dv) (\<lambda>x. Inr (dict_set arg_copy ''date'' x))
       | _ \<Rightarrow> ebind (date_fromisoformat dv) (\<lambda>x. Inr (dict_set arg_copy ''date'' x)))"

text \<open>The branch for \<open>datatype == 'stock'\<close>.\<close>

definition decode_stock :: "dict \<Rightarrow> error + pyval" where
  "decode_stock arg_copy =
     ebind (coerce_decimals [''open_'', ''high'', ''low'', ''close'']
              (dict_rename arg_copy ''open'' ''open_'')) (\<lambda>c.
     ebind (resolve_date c) Stock_new)"

text \<open>\<open>custom_decoder(arg)\<close>: a mapping with a \<open>datatype\<close> key is dispatched on the tag; every
  other value, and a mapping with any other tag, is returned as it is.\<close>

definition custom_decoder :: "pyval \<Rightarrow> error + pyval" where
  "custom_decoder arg =
     (case arg of
        VDict a \<Rightarrow>
          (case map_of a ''datatype'' of
             None \<Rightarrow> Inr arg
           | Some datatype \<Rightarrow>
               (let arg_copy = dict_del a ''datatype''
                in if datatype = VStr ''date'' then ebind (dict_getitem a ''date'') date_fromisoformat
                   else if datatype = VStr ''trade'' then decode_trade arg_copy
                   else if datatype = VStr ''stock'' then decode_stock arg_copy
                   else Inr arg))
      | _ \<Rightarrow> Inr arg)"

text \<open>
  \<open>json.loads(text, object_hook=custom_decoder)\<close>, on the JSON tree the text denotes: the
  hook is applied to every object once its members have been read, innermost first.
\<close>

fun json_loads_hook :: "pyval \<Rightarrow> error + pyval"
  and json_loads_hook_list :: "pyval list \<Rightarrow> error + pyval list"
  and json_loads_hook_items :: "dict \<Rightarrow> error + dict" where
  "json_loads_hook (VList xs) = ebind (json_loads_hook_list xs) (\<lambda>ys. Inr (VList ys))"
| "json_loads_hook (VDict d) = ebind (json_loads_hook_items d) (\<lambda>d'. custom_decoder (VDict d'))"
| "json_loads_hook v = Inr v"
| "json_loads_hook_list [] = Inr []"
| "json_loads_hook_list (x # xs) =
     ebind (json_loads_hook x) (\<lambda>y. ebind (json_loads_hook_list xs) (\<lambda>ys. Inr (y # ys)))"
| "json_loads_hook_items [] = Inr []"
| "json_loads_hook_items (kv # d) =
     ebind (json_loads_hook (snd kv)) (\<lambda>y.
     ebind (json_loads_hook_items d) (\<lambda>d'. Inr ((fst kv, y) # d')))"

text \<open>The two operations of the tagged path.\<close>

definition encode :: "pyval \<Rightarrow> error + pyval" where
  "encode x = json_dumps x"

definition decode :: "pyval \<Rightarrow> error + pyval" where
  "decode text = json_loads_hook text"

section \<open>The validating schema codec (marshmallow)\<close>

text \<open>
  A schema is the list of its declared fields, in the order of the class body. A field has
  the name of the attribute it reads and writes, the key it uses on the wire when that
  differs (\<open>data_key\<close>), and the flags \<open>required\<close> and \<open>dump_only\<close>.
\<close>

datatype validator = Length_equal nat | OneOf "string list"

datatype field_kind =
    Str "validator list"
  | Date_field
  | DateTime_field
  | DecimalField
  | Integer
  | Constant pyval

datatype field =
  Field (attr_name: string) (kind: field_kind) (data_key: "string option") (required: bool)
        (dump_only: bool)

datatype schema = StockSchema | TradeSchema

definition declared_fields :: "schema \<Rightarrow> field list" where
  "declared_fields sch =
     (case sch of
        StockSchema \<Rightarrow>
          [Field ''symbol'' (Str [Length_equal 4]) None True False,
           Field ''date'' Date_field None True False,
           Field ''open_'' DecimalField (Some ''open'') True False,
           Field ''high'' DecimalField None True False,
           Field ''low'' DecimalField None True False,
           Field ''close'' DecimalField None True False,
           Field ''volume'' Integer None True False,
           Field ''datatype'' (Constant (VStr ''stock'')) None False True]
      | TradeSchema \<Rightarrow>
          [Field ''symbol'' (Str [Length_equal 4]) None True False,
           Field ''timestamp'' DateTime_field None True False,
           Field ''order'' (Str [OneOf [''buy'', ''sell'']]) None True False,
           Field ''price'' DecimalField None True False,
           Field ''commission'' DecimalField None True False,
           Field ''volume'' Integer None True False,
           Field ''datatype'' (Constant (VStr ''trade'')) None False True])"

definition wire_key :: "field \<Rightarrow> string" where
  "wire_key f = (case data_key f of None \<Rightarrow> attr_name f | Some k \<Rightarrow> k)"

text \<open>What a field makes of a value: a loaded value, a \<open>ValidationError\<close> with its messages
  (which the schema collects under the key of the field), or any other exception (which
  leaves the schema at once).\<close>

datatype field_result = Loaded pyval | Rejected "string list" | Raised error

definition validator_message :: "validator \<Rightarrow> string \<Rightarrow> string list" where
  "validator_message v s =
     (case v of
        Length_equal n \<Rightarrow> if length s = n then [] else [''Length must be '' @ nat_str n @ ''.'']
      | OneOf choices \<Rightarrow>
          if s \<in> set choices then [] else [''Must be one of: '' @ join '', '' choices @ ''.''])"

text \<open>\<open>int(v)\<close>, as the integer field calls it: a \<open>Decimal\<close> is truncated towards zero.\<close>

definition py_int :: "pyval \<Rightarrow> error + int" where
  "py_int v =
     (case v of
        VInt i \<Rightarrow> Inr i
      | VBool b \<Rightarrow> Inr (if b then 1 else 0)
      | VStr s \<Rightarrow> (case parse_signed_int (strip s) of
                     None \<Rightarrow> Inl (ValueError (''invalid literal for int() with base 10: '' @ quote s))
                   | Some i \<Rightarrow> Inr i)
      | VDec (Finite sg n e) \<Rightarrow>
          (let m = (if 0 \<le> e then int n * 10 ^ nat e else int (n div 10 ^ nat (- e)))
           in Inr (if sg then - m else m))
      | VDec (Infinity sg) \<Rightarrow> Inl (OverflowError ''cannot convert Infinity to integer'')
      | VDec (NaN sg sn dg) \<Rightarrow> Inl (ValueError ''cannot convert NaN to integer'')
      | _ \<Rightarrow> Inl (TypeError ''int() argument must be a string, a bytes-like object or a real number''))"

text \<open>
  \<open>Field.deserialize\<close> for a value that is present. \<open>None\<close> is refused by every field.
  \<open>DecimalField._deserialize\<close> catches \<open>TypeError\<close> and \<open>ValueError\<close> only; a text that is no
  decimal literal makes \<open>Decimal\<close> raise \<open>InvalidOperation\<close>, an \<open>ArithmeticError\<close>, which
  is not caught there.
\<close>

definition field_deserialize :: "field_kind \<Rightarrow> pyval \<Rightarrow> field_result" where
  "field_deserialize k v =
     (if v = VNone then Rejected [''Field may not be null.'']
      else case k of
        Str vs \<Rightarrow>
          (case v of
             VStr s \<Rightarrow> (case concat (map (\<lambda>c. validator_message c s) vs) of
                          [] \<Rightarrow> Loaded (VStr s)
                        | ms \<Rightarrow> Rejected ms)
           | _ \<Rightarrow> Rejected [''Not a valid string.''])
      | Date_field \<Rightarrow>
          (case v of
             VStr s \<Rightarrow> (case date_parse s of
                          None \<Rightarrow> Rejected [''Not a valid date.'']
                        | Some d \<Rightarrow> Loaded (VDate d))
           | _ \<Rightarrow> Rejected [''Not a valid date.''])
      | DateTime_field \<Rightarrow>
          (case v of
             VStr s \<Rightarrow> (case datetime_parse s of
                          None \<Rightarrow> Rejected [''Not a valid datetime.'']
                        | Some t \<Rightarrow> Loaded (VDateTime t))
           | _ \<Rightarrow> Rejected [''Not a valid datetime.''])
      | DecimalField \<Rightarrow>
          (case Decimal_of_str v of Inl e \<Rightarrow> Raised e | Inr x \<Rightarrow> Loaded x)
      | Integer \<Rightarrow>
          (case v of
             VBool b \<Rightarrow> Rejected [''Not a valid integer.'']
           | _ \<Rightarrow> (case py_int v of
                     Inr i \<Rightarrow> Loaded (VInt i)
                   | Inl (OverflowError m) \<Rightarrow> Rejected [''Number too large.'']
                   | Inl e \<Rightarrow> Rejected [''Not a valid integer.'']))
      | Constant c \<Rightarrow> Loaded c)"

text \<open>The outcome of one field on the input mapping; an absent required field is rejected.\<close>

definition load_field :: "field \<Rightarrow> dict \<Rightarrow> field_result option" where
  "load_field f data =
     (case map_of data (wire_key f) of
        None \<Rightarrow> if required f then Some (Rejected [''Missing data for required field.'']) else None
      | Some v \<Rightarrow> Some (field_deserialize (kind f) v))"

text \<open>The loop of \<open>Schema._deserialize\<close> over the fields that are not \<open>dump_only\<close>: loaded
  values are stored under the attribute name, messages under the wire key; keys of the
  input that no field reads are ignored (\<open>unknown = EXCLUDE\<close>).\<close>

fun load_fields :: "field list \<Rightarrow> dict \<Rightarrow> error + dict \<times> (string \<times> string list) list" where
  "load_fields [] data = Inr ([], [])"
| "load_fields (f # fs) data =
     (if dump_only f then load_fields fs data
      else case load_field f data of
        Some (Raised e) \<Rightarrow> Inl e
      | Some (Loaded x) \<Rightarrow>
          ebind (load_fields fs data) (\<lambda>r. Inr ((attr_name f, x) # fst r, snd r))
      | Some (Rejected ms) \<Rightarrow>
          ebind (load_fields fs data) (\<lambda>r. Inr (fst r, (wire_key f, ms) # snd r))
      | None \<Rightarrow> load_fields fs data)"

text \<open>The \<open>post_load\<close> hooks \<open>make_stock\<close> and \<open>make_trade\<close>.\<close>

definition post_load :: "schema \<Rightarrow> dict \<Rightarrow> error + pyval" where
  "post_load sch data = (case sch of StockSchema \<Rightarrow> Stock_new data | TradeSchema \<Rightarrow> Trade_new data)"

text \<open>\<open>schema.load(data)\<close>: an input that is no mapping is refused as a whole; all messages
  of the fields are raised in one \<open>ValidationError\<close>; without any, the record is built.\<close>

definition Schema_load :: "schema \<Rightarrow> pyval \<Rightarrow> error + pyval" where
  "Schema_load sch data =
     (case data of
        VDict d \<Rightarrow>
          ebind (load_fields (declared_fields sch) d) (\<lambda>r.
            if snd r \<noteq> [] then Inl (ValidationError (snd r)) else post_load sch (fst r))
      | _ \<Rightarrow> Inl (ValidationError [(''_schema'', [''Invalid input type.''])]))"

text \<open>\<open>get_value(obj, name)\<close>: an attribute of an instance or a key of a mapping; \<open>None\<close> is
  marshmallow's \<open>missing\<close>.\<close>

definition get_value :: "pyval \<Rightarrow> string \<Rightarrow> pyval option" where
  "get_value obj name =
     (case obj of VStock a \<Rightarrow> map_of a name | VTrade a \<Rightarrow> map_of a name | VDict d \<Rightarrow> map_of d name
      | _ \<Rightarrow> None)"

text \<open>\<open>Field._serialize\<close> for an attribute value; \<open>None\<close> stays \<open>None\<close>.\<close>

definition field_serialize :: "field_kind \<Rightarrow> pyval \<Rightarrow> error + pyval" where
  "field_serialize k v =
     (if v = VNone then Inr VNone
      else case k of
        Str vs \<Rightarrow> Inr (VStr (py_str v))
      | Date_field \<Rightarrow>
          (case v of
             VDate d \<Rightarrow> Inr (VStr (date_isoformat d))
           | VDateTime t \<Rightarrow> Inr (VStr (date_isoformat (dt_date t)))
           | _ \<Rightarrow> Inl (TypeError (''descriptor isoformat for datetime.date objects does not apply to a ''
                                  @ type_name v @ '' object'')))
      | DateTime_field \<Rightarrow>
          (case v of
             VDateTime t \<Rightarrow> Inr (VStr (datetime_isoformat (CHR ''T'') t))
           | VDate d \<Rightarrow> Inr (VStr (date_isoformat d))
           | _ \<Rightarrow> Inl (AttributeError (quote (type_name v) @ '' object has no attribute ''
                                       @ quote ''isoformat'')))
      | DecimalField \<Rightarrow> Inr (VStr (py_str v))
      | Integer \<Rightarrow> ebind (py_int v) (\<lambda>i. Inr (VInt i))
      | Constant c \<Rightarrow> Inr c)"

text \<open>The loop of \<open>Schema._serialize\<close>: a field whose attribute the object does not have is
  left out of the output; a constant needs no attribute; the output key is the wire key.\<close>

fun dump_fields :: "field list \<Rightarrow> pyval \<Rightarrow> error + dict" where
  "dump_fields [] obj = Inr []"
| "dump_fields (f # fs) obj =
     (case kind f of
        Constant c \<Rightarrow> ebind (dump_fields fs obj) (\<lambda>r. Inr ((wire_key f, c) # r))
      | _ \<Rightarrow>
          (case get_value obj (attr_name f) of
             None \<Rightarrow> dump_fields fs obj
           | Some v \<Rightarrow>
               ebind (field_serialize (kind f) v) (\<lambda>x.
               ebind (dump_fields fs obj) (\<lambda>r. Inr ((wire_key f, x) # r)))))"

definition Schema_dump :: "schema \<Rightarrow> pyval \<Rightarrow> error + dict" where
  "Schema_dump sch obj = dump_fields (declared_fields sch) obj"

section \<open>The schema path: \<open>serialize_with_marshmallow\<close> and \<open>deserialize_with_marshmallow\<close>\<close>

text \<open>\<open>serialize_with_marshmallow(obj)\<close>; the text is the JSON tree it denotes.\<close>

definition serialize_with_marshmallow :: "pyval \<Rightarrow> error + pyval" where
  "serialize_with_marshmallow obj =
     (case obj of
        VStock a \<Rightarrow>
          ebind (Schema_dump StockSchema obj) (\<lambda>data. Inr (VDict (dict_rename data ''open_'' ''open'')))
      | VTrade a \<Rightarrow> ebind (Schema_dump TradeSchema obj) (\<lambda>data. Inr (VDict data))
      | _ \<Rightarrow> Inl (ValueError ''Object must be either Stock or Trade''))"

text \<open>\<open>str(e)\<close> of an exception: its message; for a \<open>ValidationError\<close> the text of its
  mapping from keys to message lists; for a \<open>KeyError\<close> the quoted key.\<close>

definition exc_str :: "error \<Rightarrow> string" where
  "exc_str e =
     (case e of
        KeyError k \<Rightarrow> quote k
      | TypeError m \<Rightarrow> m
      | ValueError m \<Rightarrow> m
      | AttributeError m \<Rightarrow> m
      | OverflowError m \<Rightarrow> m
      | InvalidOperation \<Rightarrow> ''[<class '' @ quote ''decimal.ConversionSyntax'' @ ''>]''
      | ValidationError errs \<Rightarrow>
          ''{'' @ join '', '' (map (\<lambda>km. quote (fst km) @ '': ['' @ join '', '' (map quote (snd km)) @ '']'')
                                 errs) @ ''}'')"

text \<open>The argument \<open>json_str\<close>: a text, given by the JSON tree it denotes, or a value that
  is no text and is used as it is.\<close>

datatype json_input = JsonText pyval | Native pyval

definition is_substring :: "string \<Rightarrow> string \<Rightarrow> bool" where
  "is_substring p s = list_ex (\<lambda>i. take (length p) (drop i s) = p) [0..<Suc (length s)]"

text \<open>\<open>key in data\<close>: a key of a mapping, an element of a list, a part of a text.\<close>

definition py_contains :: "pyval \<Rightarrow> string \<Rightarrow> error + bool" where
  "py_contains data key =
     (case data of
        VDict d \<Rightarrow> Inr (dict_has d key)
      | VList xs \<Rightarrow> Inr (VStr key \<in> set xs)
      | VStr s \<Rightarrow> Inr (is_substring key s)
      | _ \<Rightarrow> Inl (TypeError (''argument of type '' @ quote (type_name data) @ '' is not iterable'')))"

text \<open>\<open>data[new] = data.pop(old)\<close>, run when \<open>old in data\<close> holds; only a mapping has a
  \<open>pop\<close> that takes a key.\<close>

definition py_rename :: "pyval \<Rightarrow> string \<Rightarrow> string \<Rightarrow> error + pyval" where
  "py_rename data old new =
     (case data of
        VDict d \<Rightarrow> Inr (VDict (dict_rename d old new))
      | VList xs \<Rightarrow> Inl (TypeError (quote ''str'' @ '' object cannot be interpreted as an integer''))
      | _ \<Rightarrow> Inl (AttributeError (quote (type_name data) @ '' object has no attribute '' @ quote ''pop'')))"

text \<open>The body of the \<open>try\<close> block after \<open>data\<close> is bound: the result, and \<open>data\<close> as the block
  leaves it.\<close>

definition try_load :: "pyval \<Rightarrow> schema \<Rightarrow> (error + pyval) \<times> pyval" where
  "try_load data sch =
     (case sch of
        TradeSchema \<Rightarrow> (Schema_load sch data, data)
      | StockSchema \<Rightarrow>
          (case py_contains data ''open_'' of
             Inl e \<Rightarrow> (Inl e, data)
           | Inr True \<Rightarrow>
               (case py_rename data ''open_'' ''open'' of
                  Inl e \<Rightarrow> (Inl e, data)
                | Inr data' \<Rightarrow> (Schema_load sch data', data'))
           | Inr False \<Rightarrow>
               (case py_contains data ''open'' of
                  Inl e \<Rightarrow> (Inl e, data)
                | Inr False \<Rightarrow> (Inl (ValueError (''Missing required field '' @ quote ''open'')), data)
                | Inr True \<Rightarrow> (Schema_load sch data, data))))"

text \<open>
  \<open>deserialize_with_marshmallow(json_str, schema)\<close>: the result, and the caller's argument
  as the call leaves it. A text is parsed into a fresh value; a value that is no text is
  itself the \<open>data\<close> the block works on. Every exception is raised again as a \<open>ValueError\<close>
  whose message is built from the text of the first.
\<close>

definition deserialize_with_marshmallow ::
  "json_input \<Rightarrow> schema \<Rightarrow> (error + pyval) \<times> json_input" where
  "deserialize_with_marshmallow json_str sch =
     (let data = (case json_str of JsonText t \<Rightarrow> t | Native v \<Rightarrow> v);
          r = try_load data sch;
          res = (case fst r of
                   Inl e \<Rightarrow> Inl (ValueError (''Failed to deserialize: '' @ exc_str e))
                 | Inr x \<Rightarrow> Inr x)
      in (res, case json_str of JsonText t \<Rightarrow> JsonText t | Native v \<Rightarrow> Native (snd r)))"

text \<open>The two operations of the schema path, on texts.\<close>

definition validate_and_encode :: "pyval \<Rightarrow> error + pyval" where
  "validate_and_encode x = serialize_with_marshmallow x"

definition validate_and_decode :: "pyval \<Rightarrow> schema \<Rightarrow> error + pyval" where
  "validate_and_decode text sch = fst (deserialize_with_marshmallow (JsonText text) sch)"

section \<open>Properties of the tagged decoder\<close>

text \<open>
  Claim C4, as the code has it: a mapping whose \<open>datatype\<close> value is none of \<open>stock\<close>,
  \<open>trade\<close> and \<open>date\<close> is returned by the tagged decoder unchanged; no error is raised
  for an unknown tag.
\<close>

theorem custom_decoder_unknown_tag_passes:
  assumes "map_of a ''datatype'' = Some t"
    and "t \<noteq> VStr ''stock''" and "t \<noteq> VStr ''trade''" and "t \<noteq> VStr ''date''"
  shows "custom_decoder (VDict a) = Inr (VDict a)"
  using assms by (simp add: custom_decoder_def Let_def)

theorem custom_decoder_unknown_tag_passes_witness:
  "map_of [(''datatype'', VStr ''bond''), (''x'', VInt 2)] ''datatype'' = Some (VStr ''bond'') \<and>
   VStr ''bond'' \<noteq> VStr ''stock'' \<and> VStr ''bond'' \<noteq> VStr ''trade'' \<and> VStr ''bond'' \<noteq> VStr ''date'' \<and>
   custom_decoder (VDict [(''datatype'', VStr ''bond''), (''x'', VInt 2)]) =
     Inr (VDict [(''datatype'', VStr ''bond''), (''x'', VInt 2)])"
  using custom_decoder_unknown_tag_passes
          [of "[(''datatype'', VStr ''bond''), (''x'', VInt 2)]" "VStr ''bond''"]
  by simp

text \<open>The mapping \<open>{"datatype": "option", "x": 1}\<close> is decoded to itself: the decoder does
  not fail on it.\<close>

theorem custom_decoder_option_not_rejected:
  "custom_decoder (VDict [(''datatype'', VStr ''option''), (''x'', VInt 1)]) =
     Inr (VDict [(''datatype'', VStr ''option''), (''x'', VInt 1)])"
  by (simp add: custom_decoder_def)

end
